theory Spec2Isabelle
  imports Complex_Main "HOL-Library.Product_Lexorder" "HOL-Library.Sublist" "HOL-Library.Multiset"
begin

section \<open>Conventions of the embedding\<close>

text \<open>
  The Python sources of the trading backend are embedded function by function.
  A Python float (a price, a quantity, a duration) is the rational number it
  denotes. The statistics report results of float arithmetic, so there the
  arithmetic itself (addition, multiplication, division, \<^verbatim>\<open>round\<close>) is the
  library's and is a parameter of the function. A
  \<^verbatim>\<open>datetime\<close> is a number of microseconds, and every value the
  source takes from its environment (\<^verbatim>\<open>uuid.uuid4()\<close>,
  \<^verbatim>\<open>datetime.utcnow()\<close>, \<^verbatim>\<open>time.time()\<close> differences,
  \<^verbatim>\<open>random.uniform\<close>) is an explicit argument of the function that
  reads it. A method that mutates \<^verbatim>\<open>self\<close> returns the new object;
  a raised exception is the \<open>Inl\<close> branch of a sum.
\<close>

datatype py_error = AttributeError | TypeError | KeyError | ValueError

text \<open>
  \<^verbatim>\<open>round(x, ndigits)\<close>: the nearest multiple of \<open>10 ^ -ndigits\<close>,
  a tie going to the even neighbour.
\<close>

definition round_ndigits :: "rat \<Rightarrow> nat \<Rightarrow> rat" where
  "round_ndigits x ndigits =
     (let scaled = x * 10 ^ ndigits;
          lower = \<lfloor>scaled\<rfloor>;
          rest = scaled - of_int lower;
          nearest = (if rest < 1 / 2 then lower
                     else if 1 / 2 < rest then lower + 1
                     else if even lower then lower else lower + 1)
      in of_int nearest / 10 ^ ndigits)"

section \<open>models/transaction.py\<close>

record transaction =
  t_id :: string
  t_energy_type :: string
  t_quantity :: rat
  t_price :: rat
  t_order_type :: string
  t_user_id :: string
  t_status :: string
  t_created_at :: nat
  t_updated_at :: nat
  t_matched_with :: "string option"
  t_contract_id :: "string option"
  t_execution_time :: "rat option"

text \<open>
  \<^verbatim>\<open>Transaction.__init__\<close> as the service calls it (no id, status or
  creation time passed): \<open>new_id\<close> is the fresh uuid, \<open>now\<close> and \<open>now'\<close>
  are the two clock readings.
\<close>

definition Transaction_init ::
  "string \<Rightarrow> rat \<Rightarrow> rat \<Rightarrow> string \<Rightarrow> string \<Rightarrow> string \<Rightarrow> nat \<Rightarrow> nat \<Rightarrow> transaction" where
  "Transaction_init energy_type quantity price order_type user_id new_id now now' =
     \<lparr>t_id = new_id, t_energy_type = energy_type, t_quantity = quantity, t_price = price,
      t_order_type = order_type, t_user_id = user_id, t_status = ''pending'',
      t_created_at = now, t_updated_at = now', t_matched_with = None,
      t_contract_id = None, t_execution_time = None\<rparr>"

definition update_status :: "string \<Rightarrow> nat \<Rightarrow> transaction \<Rightarrow> transaction" where
  "update_status new_status now t = t\<lparr>t_status := new_status, t_updated_at := now\<rparr>"

definition mark_matched :: "string \<Rightarrow> nat \<Rightarrow> transaction \<Rightarrow> transaction" where
  "mark_matched matched_transaction_id now t =
     update_status ''matched'' now (t\<lparr>t_matched_with := Some matched_transaction_id\<rparr>)"

definition mark_completed :: "string \<Rightarrow> rat \<Rightarrow> nat \<Rightarrow> transaction \<Rightarrow> transaction" where
  "mark_completed contract_id execution_time now t =
     update_status ''completed'' now
       (t\<lparr>t_contract_id := Some contract_id, t_execution_time := Some execution_time\<rparr>)"

definition can_be_cancelled :: "transaction \<Rightarrow> bool" where
  "can_be_cancelled t = (t_status t = ''pending'' \<or> t_status t = ''matched'')"

section \<open>services/transaction\_service.py\<close>

record transaction_service =
  transactions :: "transaction list"

definition TransactionService_init :: transaction_service where
  "TransactionService_init = \<lparr>transactions = []\<rparr>"

definition create_transaction ::
  "transaction_service \<Rightarrow> string \<Rightarrow> rat \<Rightarrow> rat \<Rightarrow> string \<Rightarrow> string \<Rightarrow> string \<Rightarrow> nat \<Rightarrow> nat
     \<Rightarrow> transaction \<times> transaction_service" where
  "create_transaction s energy_type quantity price order_type user_id new_id now now' =
     (let transaction = Transaction_init energy_type quantity price order_type user_id new_id now now'
      in (transaction, s\<lparr>transactions := transactions s @ [transaction]\<rparr>))"

fun find_transaction :: "string \<Rightarrow> transaction list \<Rightarrow> transaction option" where
  "find_transaction transaction_id [] = None"
| "find_transaction transaction_id (t # ts) =
     (if t_id t = transaction_id then Some t else find_transaction transaction_id ts)"

definition get_transaction_by_id :: "transaction_service \<Rightarrow> string \<Rightarrow> transaction option" where
  "get_transaction_by_id s transaction_id = find_transaction transaction_id (transactions s)"

text \<open>
  The registry holds the transaction objects themselves, so a method called on
  the object that \<open>get_transaction_by_id\<close> returned changes the first list entry
  with that id.
\<close>

fun update_found :: "(transaction \<Rightarrow> transaction) \<Rightarrow> string \<Rightarrow> transaction list \<Rightarrow> transaction list" where
  "update_found f transaction_id [] = []"
| "update_found f transaction_id (t # ts) =
     (if t_id t = transaction_id then f t # ts else t # update_found f transaction_id ts)"

definition cancel_transaction :: "transaction_service \<Rightarrow> string \<Rightarrow> nat \<Rightarrow> bool \<times> transaction_service" where
  "cancel_transaction s transaction_id now =
     (case get_transaction_by_id s transaction_id of
        None \<Rightarrow> (False, s)
      | Some transaction \<Rightarrow>
          if \<not> can_be_cancelled transaction then (False, s)
          else (True, s\<lparr>transactions :=
                  update_found (update_status ''cancelled'' now) transaction_id (transactions s)\<rparr>))"

text \<open>\<^verbatim>\<open>if energy_type:\<close> skips the filter for \<^verbatim>\<open>None\<close> and for the empty string.\<close>

definition get_pending_orders :: "transaction_service \<Rightarrow> string option \<Rightarrow> transaction list" where
  "get_pending_orders s energy_type =
     (let pending = filter (\<lambda>t. t_status t = ''pending'') (transactions s)
      in case energy_type of
           None \<Rightarrow> pending
         | Some e \<Rightarrow> if e = [] then pending else filter (\<lambda>t. t_energy_type t = e) pending)"

record statistics =
  total_transactions :: nat
  st_pending :: nat
  st_matched :: nat
  st_completed :: nat
  st_cancelled :: nat
  total_volume_kwh :: rat
  average_execution_time_seconds :: rat
  success_rate_percentage :: rat

definition count_status :: "string \<Rightarrow> transaction list \<Rightarrow> nat" where
  "count_status st ts = length (filter (\<lambda>t. t_status t = st) ts)"

text \<open>
  The float arithmetic of the interpreter: each operation returns the float, read
  as a rational, that Python computes from its operands.
\<close>

record float_ops =
  fl_add :: "rat \<Rightarrow> rat \<Rightarrow> rat"
  fl_mul :: "rat \<Rightarrow> rat \<Rightarrow> rat"
  fl_div :: "rat \<Rightarrow> rat \<Rightarrow> rat"
  fl_round :: "rat \<Rightarrow> nat \<Rightarrow> rat"

text \<open>\<^verbatim>\<open>sum(xs)\<close>: the elements are added from the left, starting from 0.\<close>

definition fl_sum :: "float_ops \<Rightarrow> rat list \<Rightarrow> rat" where
  "fl_sum F xs = foldl (fl_add F) 0 xs"

text \<open>
  \<^verbatim>\<open>get_statistics\<close>. Both averages are the integer 0 when there is nothing
  to divide by, and \<^verbatim>\<open>round\<close> of the integer 0 is 0.
\<close>

definition get_statistics :: "float_ops \<Rightarrow> transaction_service \<Rightarrow> statistics" where
  "get_statistics F s =
     (let total = length (transactions s);
          pending = count_status ''pending'' (transactions s);
          matched = count_status ''matched'' (transactions s);
          completed = count_status ''completed'' (transactions s);
          cancelled = count_status ''cancelled'' (transactions s);
          total_volume = fl_sum F (map t_quantity
                           (filter (\<lambda>t. t_status t = ''completed'') (transactions s)));
          execution_times = map the (filter (\<lambda>x. x \<noteq> None)
                              (map t_execution_time (transactions s)))
      in \<lparr>total_transactions = total, st_pending = pending, st_matched = matched,
          st_completed = completed, st_cancelled = cancelled, total_volume_kwh = total_volume,
          average_execution_time_seconds =
            (if execution_times \<noteq> []
             then fl_round F (fl_div F (fl_sum F execution_times)
                                (of_nat (length execution_times))) 2
             else 0),
          success_rate_percentage =
            (if 0 < total
             then fl_round F (fl_mul F (fl_div F (of_nat completed) (of_nat total)) 100) 2
             else 0)\<rparr>)"

text \<open>
  The success rate in the words of the specification: completed orders over the
  orders that were matched and then completed, failed or were cancelled, as a
  percentage. An order counts as cancelled after a match when it is cancelled and
  carries a counterparty.
\<close>

definition spec_success_rate :: "transaction_service \<Rightarrow> rat" where
  "spec_success_rate s =
     (let completed = count_status ''completed'' (transactions s);
          failed = count_status ''failed'' (transactions s);
          cancelled_after_match =
            length (filter (\<lambda>t. t_status t = ''cancelled'' \<and> t_matched_with t \<noteq> None) (transactions s))
      in of_nat completed / of_nat (completed + failed + cancelled_after_match) * 100)"

section \<open>services/matching\_engine/order.py\<close>

text \<open>The order dictionary that \<^verbatim>\<open>add_order\<close> receives, and a book entry.\<close>

record order =
  o_id :: string
  o_energy_type :: string
  o_order_type :: string
  o_price :: rat
  o_quantity :: rat
  o_user_id :: string

record book_entry =
  e_id :: string
  e_price :: rat
  e_quantity :: rat
  e_user_id :: string
  e_timestamp :: nat

text \<open>\<^verbatim>\<open>self.books\<close>: a dictionary of dictionaries of lists.\<close>

type_synonym order_book = "string \<rightharpoonup> (string \<rightharpoonup> book_entry list)"

definition empty_sides :: "string \<rightharpoonup> book_entry list" where
  "empty_sides = [''buy'' \<mapsto> [], ''sell'' \<mapsto> []]"

definition OrderBook_init :: order_book where
  "OrderBook_init = [''solar'' \<mapsto> empty_sides, ''wind'' \<mapsto> empty_sides,
                     ''hydro'' \<mapsto> empty_sides, ''biomass'' \<mapsto> empty_sides]"

text \<open>
  \<^verbatim>\<open>list.sort(key=...)\<close> is stable, as \<open>sort_key\<close> is; the keys are
  pairs, compared lexicographically.
\<close>

definition sort_book :: "order_book \<Rightarrow> string \<Rightarrow> string \<Rightarrow> py_error + order_book" where
  "sort_book books energy_type order_type =
     (case books energy_type of
        None \<Rightarrow> Inl KeyError
      | Some sides \<Rightarrow>
          (case sides order_type of
             None \<Rightarrow> Inl KeyError
           | Some entries \<Rightarrow>
               Inr (books(energy_type \<mapsto> sides(order_type \<mapsto>
                 (if order_type = ''buy''
                  then sort_key (\<lambda>x. (- e_price x, e_timestamp x)) entries
                  else sort_key (\<lambda>x. (e_price x, e_timestamp x)) entries))))))"

definition entry_of :: "order \<Rightarrow> nat \<Rightarrow> book_entry" where
  "entry_of ord now = \<lparr>e_id = o_id ord, e_price = o_price ord, e_quantity = o_quantity ord,
                        e_user_id = o_user_id ord, e_timestamp = now\<rparr>"

definition add_order :: "order_book \<Rightarrow> order \<Rightarrow> nat \<Rightarrow> py_error + (bool \<times> order_book)" where
  "add_order books ord now =
     (let energy_type = o_energy_type ord; order_type = o_order_type ord
      in case books energy_type of
           None \<Rightarrow> Inr (False, books)
         | Some sides \<Rightarrow>
             (case sides order_type of
                None \<Rightarrow> Inl KeyError
              | Some entries \<Rightarrow>
                  (let entry = entry_of ord now;
                       appended = books(energy_type \<mapsto> sides(order_type \<mapsto> entries @ [entry]))
                   in case sort_book appended energy_type order_type of
                        Inl e \<Rightarrow> Inl e
                      | Inr sorted_books \<Rightarrow> Inr (True, sorted_books))))"

definition remove_order ::
  "order_book \<Rightarrow> string \<Rightarrow> string \<Rightarrow> string \<Rightarrow> py_error + (bool \<times> order_book)" where
  "remove_order books energy_type order_type order_id =
     (case books energy_type of
        None \<Rightarrow> Inr (False, books)
      | Some sides \<Rightarrow>
          (case sides order_type of
             None \<Rightarrow> Inl KeyError
           | Some entries \<Rightarrow>
               (let initial_count = length entries;
                    kept = filter (\<lambda>entry. e_id entry \<noteq> order_id) entries;
                    removed = length kept < initial_count
                in Inr (removed, books(energy_type \<mapsto> sides(order_type \<mapsto> kept))))))"

text \<open>
  \<^verbatim>\<open>buy_orders['price']\<close> subscripts a list with a string: Python raises
  \<^verbatim>\<open>TypeError\<close> (list indices must be integers or slices), whatever the list holds.
\<close>

definition list_getitem_str :: "book_entry list \<Rightarrow> string \<Rightarrow> py_error + rat option" where
  "list_getitem_str xs key = Inl TypeError"

record bid_ask =
  ba_energy_type :: string
  best_bid :: "rat option"
  best_ask :: "rat option"
  spread :: "rat option"
  mid_price :: "rat option"

text \<open>Truth value of a price that may be \<^verbatim>\<open>None\<close>: neither \<^verbatim>\<open>None\<close> nor zero.\<close>

definition truthy :: "rat option \<Rightarrow> bool" where
  "truthy v = (case v of None \<Rightarrow> False | Some x \<Rightarrow> x \<noteq> 0)"

definition get_best_bid_ask :: "order_book \<Rightarrow> string \<Rightarrow> py_error + bid_ask option" where
  "get_best_bid_ask books energy_type =
     (case books energy_type of
        None \<Rightarrow> Inr None
      | Some sides \<Rightarrow>
          (case sides ''buy'' of
             None \<Rightarrow> Inl KeyError
           | Some buy_orders \<Rightarrow>
               (case sides ''sell'' of
                  None \<Rightarrow> Inl KeyError
                | Some sell_orders \<Rightarrow>
                    (case (if buy_orders \<noteq> [] then list_getitem_str buy_orders ''price''
                           else Inr None) of
                       Inl e \<Rightarrow> Inl e
                     | Inr bid \<Rightarrow>
                         (case (if sell_orders \<noteq> [] then list_getitem_str sell_orders ''price''
                                else Inr None) of
                            Inl e \<Rightarrow> Inl e
                          | Inr ask \<Rightarrow>
                              (let spr = (if truthy bid \<and> truthy ask
                                          then Some (the ask - the bid) else None)
                               in Inr (Some
                                    \<lparr>ba_energy_type = energy_type, best_bid = bid, best_ask = ask,
                                     spread = (if truthy spr then Some (round_ndigits (the spr) 3)
                                               else None),
                                     mid_price = (if truthy bid \<and> truthy ask
                                                  then Some (round_ndigits ((the bid + the ask) / 2) 3)
                                                  else None)\<rparr>)))))))"

text \<open>The entries of one side of one category, when both keys exist.\<close>

definition book_side :: "order_book \<Rightarrow> string \<Rightarrow> string \<Rightarrow> book_entry list option" where
  "book_side books energy_type order_type =
     (case books energy_type of None \<Rightarrow> None | Some sides \<Rightarrow> sides order_type)"

text \<open>
  The priority relation between an entry and a later one in the same book, in
  the two readings compared below: with the timestamps strictly increasing, and
  with equal timestamps allowed.
\<close>

definition better_price :: "string \<Rightarrow> book_entry \<Rightarrow> book_entry \<Rightarrow> bool" where
  "better_price order_type x y =
     (if order_type = ''buy'' then e_price y < e_price x else e_price x < e_price y)"

definition strictly_before :: "string \<Rightarrow> book_entry \<Rightarrow> book_entry \<Rightarrow> bool" where
  "strictly_before order_type x y =
     (better_price order_type x y \<or> (e_price x = e_price y \<and> e_timestamp x < e_timestamp y))"

definition not_after :: "string \<Rightarrow> book_entry \<Rightarrow> book_entry \<Rightarrow> bool" where
  "not_after order_type x y =
     (better_price order_type x y \<or> (e_price x = e_price y \<and> e_timestamp x \<le> e_timestamp y))"

definition book_ordered :: "order_book \<Rightarrow> bool" where
  "book_ordered books =
     (\<forall>energy_type order_type entries.
        book_side books energy_type order_type = Some entries
          \<longrightarrow> sorted_wrt (not_after order_type) entries)"

section \<open>services/blockchain/verified.py\<close>

text \<open>
  \<^verbatim>\<open>hashlib.sha256(s.encode()).hexdigest()\<close> is a library function; the
  functions that call it take it as their first argument \<open>sha\<close>.
\<close>

record verification_record =
  v_contract_id :: string
  v_transaction_hash :: string
  v_verified :: bool
  v_verified_at :: nat
  v_verification_time :: rat
  v_confirmations :: nat

record verification_service =
  verified_contracts :: "string \<rightharpoonup> verification_record"
  verification_cache :: "string \<rightharpoonup> bool"

definition VerificationService_init :: verification_service where
  "VerificationService_init = \<lparr>verified_contracts = Map.empty, verification_cache = Map.empty\<rparr>"

text \<open>The f-string \<^verbatim>\<open>f"{contract_id}:{transaction_hash}"\<close>.\<close>

definition cache_key :: "string \<Rightarrow> string \<Rightarrow> string" where
  "cache_key contract_id transaction_hash = contract_id @ '':'' @ transaction_hash"

definition verify_hash_integrity :: "(string \<Rightarrow> string) \<Rightarrow> string \<Rightarrow> string \<Rightarrow> bool" where
  "verify_hash_integrity sha contract_id transaction_hash =
     (let expected_hash_prefix = take 8 (sha contract_id)
      in prefix (take 4 expected_hash_prefix) transaction_hash)"

text \<open>
  \<open>now\<close> is the reading of \<^verbatim>\<open>datetime.utcnow()\<close> and \<open>verification_time\<close>
  the measured duration; both are read only when the cache has no answer.
\<close>

definition verify ::
  "(string \<Rightarrow> string) \<Rightarrow> verification_service \<Rightarrow> string \<Rightarrow> string \<Rightarrow> nat \<Rightarrow> rat
     \<Rightarrow> bool \<times> verification_service" where
  "verify sha s contract_id transaction_hash now verification_time =
     (case verification_cache s (cache_key contract_id transaction_hash) of
        Some cached \<Rightarrow> (cached, s)
      | None \<Rightarrow>
          (let is_valid = verify_hash_integrity sha contract_id transaction_hash
           in (is_valid,
               s\<lparr>verified_contracts := (verified_contracts s)(contract_id \<mapsto>
                    \<lparr>v_contract_id = contract_id, v_transaction_hash = transaction_hash,
                     v_verified = is_valid, v_verified_at = now,
                     v_verification_time = verification_time,
                     v_confirmations = (if is_valid then 12 else 0)\<rparr>),
                  verification_cache := (verification_cache s)
                    (cache_key contract_id transaction_hash \<mapsto> is_valid)\<rparr>)))"

record batch_result =
  br_contract_id :: string
  br_verified :: bool

text \<open>
  The loop of \<^verbatim>\<open>batch_verify\<close>; \<open>clock k\<close> gives the clock reading and the
  duration of the \<open>k\<close>-th verification of the batch.
\<close>

fun batch_verify_loop ::
  "(string \<Rightarrow> string) \<Rightarrow> (nat \<Rightarrow> nat \<times> rat) \<Rightarrow> nat \<Rightarrow> verification_service \<Rightarrow> string list
     \<Rightarrow> batch_result list \<Rightarrow> batch_result list \<times> verification_service" where
  "batch_verify_loop sha clock k s [] results = (results, s)"
| "batch_verify_loop sha clock k s (contract_id # contract_ids) results =
     (let transaction_hash = sha contract_id;
          (is_valid, s') = verify sha s contract_id transaction_hash (fst (clock k)) (snd (clock k))
      in batch_verify_loop sha clock (Suc k) s' contract_ids
           (results @ [\<lparr>br_contract_id = contract_id, br_verified = is_valid\<rparr>]))"

definition batch_verify ::
  "(string \<Rightarrow> string) \<Rightarrow> (nat \<Rightarrow> nat \<times> rat) \<Rightarrow> verification_service \<Rightarrow> string list
     \<Rightarrow> batch_result list \<times> verification_service" where
  "batch_verify sha clock s contract_ids = batch_verify_loop sha clock 0 s contract_ids []"

section \<open>models/smart\_contract.py\<close>

text \<open>
  The library functions the contract model calls: the digest, \<^verbatim>\<open>str\<close> of a
  number and of a \<^verbatim>\<open>datetime\<close> (as an f-string formats them), and
  \<^verbatim>\<open>isoformat\<close> and \<^verbatim>\<open>fromisoformat\<close>, which fails (\<open>None\<close>) on a
  string that is no date.
\<close>

record pylib =
  sha256_hexdigest :: "string \<Rightarrow> string"
  str_float :: "rat \<Rightarrow> string"
  str_datetime :: "nat \<Rightarrow> string"
  isoformat :: "nat \<Rightarrow> string"
  fromisoformat :: "string \<Rightarrow> nat option"

record smart_contract =
  c_id :: string
  c_buyer_id :: string
  c_seller_id :: string
  c_energy_type :: string
  c_quantity :: rat
  c_price :: rat
  c_total_value :: rat
  c_status :: string
  c_created_at :: nat
  c_deployed_at :: "nat option"
  c_executed_at :: "nat option"
  c_transaction_hash :: string
  c_verification_status :: string
  c_execution_time :: "rat option"
  c_gas_used :: rat
  c_failure_reason :: "string option"

definition generate_hash :: "pylib \<Rightarrow> smart_contract \<Rightarrow> string" where
  "generate_hash L c =
     (let data = c_buyer_id c @ c_seller_id c @ c_energy_type c @ str_float L (c_quantity c)
                   @ str_float L (c_price c) @ str_datetime L (c_created_at c)
      in sha256_hexdigest L data)"

text \<open>
  \<^verbatim>\<open>SmartContract.__init__\<close>: \<open>new_id\<close> is the uuid drawn when no id (or an
  empty one) is passed, \<open>now\<close> the clock reading used when no creation time is
  passed.
\<close>

definition SmartContract_init ::
  "pylib \<Rightarrow> string \<Rightarrow> string \<Rightarrow> string \<Rightarrow> rat \<Rightarrow> rat \<Rightarrow> string option \<Rightarrow> string \<Rightarrow> nat option
     \<Rightarrow> string \<Rightarrow> nat \<Rightarrow> smart_contract" where
  "SmartContract_init L buyer_id seller_id energy_type quantity price contract_id status created_at
       new_id now =
     (let c = \<lparr>c_id = (case contract_id of None \<Rightarrow> new_id
                                          | Some i \<Rightarrow> if i = [] then new_id else i),
                c_buyer_id = buyer_id, c_seller_id = seller_id, c_energy_type = energy_type,
                c_quantity = quantity, c_price = price, c_total_value = quantity * price,
                c_status = status,
                c_created_at = (case created_at of None \<Rightarrow> now | Some d \<Rightarrow> d),
                c_deployed_at = None, c_executed_at = None, c_transaction_hash = [],
                c_verification_status = ''unverified'', c_execution_time = None,
                c_gas_used = 0, c_failure_reason = None\<rparr>
      in c\<lparr>c_transaction_hash := generate_hash L c\<rparr>)"

text \<open>The dictionary that \<^verbatim>\<open>to_dict\<close> builds; \<open>None\<close> is Python's \<^verbatim>\<open>None\<close>.\<close>

record contract_dict =
  d_id :: string
  d_buyer_id :: string
  d_seller_id :: string
  d_energy_type :: string
  d_quantity :: rat
  d_price :: rat
  d_total_value :: rat
  d_status :: string
  d_created_at :: "string option"
  d_deployed_at :: "string option"
  d_executed_at :: "string option"
  d_transaction_hash :: string
  d_verification_status :: string
  d_execution_time :: "rat option"
  d_gas_used :: rat

definition to_dict :: "pylib \<Rightarrow> smart_contract \<Rightarrow> contract_dict" where
  "to_dict L c =
     \<lparr>d_id = c_id c, d_buyer_id = c_buyer_id c, d_seller_id = c_seller_id c,
      d_energy_type = c_energy_type c, d_quantity = c_quantity c, d_price = c_price c,
      d_total_value = c_total_value c, d_status = c_status c,
      d_created_at = Some (isoformat L (c_created_at c)),
      d_deployed_at = map_option (isoformat L) (c_deployed_at c),
      d_executed_at = map_option (isoformat L) (c_executed_at c),
      d_transaction_hash = c_transaction_hash c,
      d_verification_status = c_verification_status c,
      d_execution_time = c_execution_time c, d_gas_used = c_gas_used c\<rparr>"

text \<open>
  \<^verbatim>\<open>from_dict\<close> on a dictionary with the keys of \<^verbatim>\<open>to_dict\<close>. An optional
  date is parsed when its value is truthy (neither \<^verbatim>\<open>None\<close> nor empty);
  \<^verbatim>\<open>created_at\<close> is always parsed, and parsing \<^verbatim>\<open>None\<close> raises.
\<close>

definition parse_optional_date :: "pylib \<Rightarrow> string option \<Rightarrow> nat option \<Rightarrow> py_error + nat option" where
  "parse_optional_date L v unchanged =
     (case v of
        None \<Rightarrow> Inr unchanged
      | Some txt \<Rightarrow>
          if txt = [] then Inr unchanged
          else (case fromisoformat L txt of None \<Rightarrow> Inl ValueError | Some d \<Rightarrow> Inr (Some d)))"

definition from_dict :: "pylib \<Rightarrow> contract_dict \<Rightarrow> string \<Rightarrow> nat \<Rightarrow> py_error + smart_contract" where
  "from_dict L data new_id now =
     (let contract = SmartContract_init L (d_buyer_id data) (d_seller_id data) (d_energy_type data)
                       (d_quantity data) (d_price data) (Some (d_id data)) (d_status data) None
                       new_id now
      in case d_created_at data of
           None \<Rightarrow> Inl TypeError
         | Some txt \<Rightarrow>
             (case fromisoformat L txt of
                None \<Rightarrow> Inl ValueError
              | Some created \<Rightarrow>
                  (case parse_optional_date L (d_deployed_at data) (c_deployed_at contract) of
                     Inl e \<Rightarrow> Inl e
                   | Inr deployed \<Rightarrow>
                       (case parse_optional_date L (d_executed_at data) (c_executed_at contract) of
                          Inl e \<Rightarrow> Inl e
                        | Inr executed \<Rightarrow>
                            Inr (contract\<lparr>c_created_at := created, c_deployed_at := deployed,
                                   c_executed_at := executed,
                                   c_transaction_hash := d_transaction_hash data,
                                   c_verification_status := d_verification_status data,
                                   c_execution_time := d_execution_time data,
                                   c_gas_used := d_gas_used data\<rparr>)))))"

definition contract_deploy :: "nat \<Rightarrow> smart_contract \<Rightarrow> string \<times> smart_contract" where
  "contract_deploy now c = (c_transaction_hash c, c\<lparr>c_status := ''active'', c_deployed_at := Some now\<rparr>)"

text \<open>\<open>gas_draw\<close> is the value of \<^verbatim>\<open>random.uniform(0.001, 0.005)\<close>.\<close>

definition contract_execute :: "rat \<Rightarrow> nat \<Rightarrow> rat \<Rightarrow> smart_contract \<Rightarrow> bool \<times> smart_contract" where
  "contract_execute execution_time now gas_draw c =
     (True, c\<lparr>c_status := ''completed'', c_executed_at := Some now,
              c_execution_time := Some execution_time,
              c_gas_used := round_ndigits gas_draw 6\<rparr>)"

definition contract_verify :: "smart_contract \<Rightarrow> bool \<times> smart_contract" where
  "contract_verify c =
     (if c_status c = ''completed'' then (True, c\<lparr>c_verification_status := ''verified''\<rparr>)
      else (False, c))"

definition contract_fail :: "string \<Rightarrow> smart_contract \<Rightarrow> bool \<times> smart_contract" where
  "contract_fail reason c = (False, c\<lparr>c_status := ''failed'', c_failure_reason := Some reason\<rparr>)"

text \<open>
  The contracts that construction, the lifecycle methods and a round trip through
  \<^verbatim>\<open>to_dict\<close> and \<^verbatim>\<open>from_dict\<close> produce.
\<close>

inductive lifecycle :: "pylib \<Rightarrow> smart_contract \<Rightarrow> bool" for L :: pylib where
  constructed:
    "lifecycle L (SmartContract_init L buyer_id seller_id energy_type quantity price contract_id
                    status created_at new_id now)"
| deployed: "lifecycle L c \<Longrightarrow> lifecycle L (snd (contract_deploy now c))"
| executed: "lifecycle L c \<Longrightarrow> lifecycle L (snd (contract_execute execution_time now gas_draw c))"
| verified: "lifecycle L c \<Longrightarrow> lifecycle L (snd (contract_verify c))"
| failed: "lifecycle L c \<Longrightarrow> lifecycle L (snd (contract_fail reason c))"
| round_trip:
    "lifecycle L c \<Longrightarrow> from_dict L (to_dict L c) new_id now = Inr c' \<Longrightarrow> lifecycle L c'"

section \<open>services/blockchain/smart\_contract.py\<close>

record executor =
  contracts :: "smart_contract list"

definition SmartContractExecutor_init :: executor where
  "SmartContractExecutor_init = \<lparr>contracts = []\<rparr>"

fun find_contract :: "string \<Rightarrow> smart_contract list \<Rightarrow> smart_contract option" where
  "find_contract contract_id [] = None"
| "find_contract contract_id (c # cs) =
     (if c_id c = contract_id then Some c else find_contract contract_id cs)"

definition get_contract :: "executor \<Rightarrow> string \<Rightarrow> smart_contract option" where
  "get_contract ex contract_id = find_contract contract_id (contracts ex)"

definition add_contract :: "executor \<Rightarrow> smart_contract \<Rightarrow> executor" where
  "add_contract ex contract = ex\<lparr>contracts := contracts ex @ [contract]\<rparr>"

fun store_contract :: "smart_contract \<Rightarrow> smart_contract list \<Rightarrow> smart_contract list" where
  "store_contract c' [] = []"
| "store_contract c' (c # cs) = (if c_id c = c_id c' then c' # cs else c # store_contract c' cs)"

record execution_result =
  x_success :: bool
  x_contract_id :: string
  x_transaction_hash :: string
  x_execution_time :: rat
  x_gas_used :: rat
  x_status :: string

text \<open>
  \<^verbatim>\<open>SmartContractExecutor.execute\<close>. The two \<^verbatim>\<open>raise ValueError\<close> are the
  \<open>Inl\<close> branches; nothing inside the \<^verbatim>\<open>try\<close> block raises, so its handler
  has no branch here.
\<close>

definition executor_execute ::
  "executor \<Rightarrow> string \<Rightarrow> rat \<Rightarrow> nat \<Rightarrow> rat \<Rightarrow> py_error + (execution_result \<times> executor)" where
  "executor_execute ex contract_id execution_time now gas_draw =
     (case get_contract ex contract_id of
        None \<Rightarrow> Inl ValueError
      | Some contract \<Rightarrow>
          if c_status contract \<noteq> ''active'' then Inl ValueError
          else (let contract' = snd (contract_execute execution_time now gas_draw contract)
                in Inr (\<lparr>x_success = True, x_contract_id = contract_id,
                          x_transaction_hash = c_transaction_hash contract',
                          x_execution_time = execution_time, x_gas_used = c_gas_used contract',
                          x_status = c_status contract'\<rparr>,
                        ex\<lparr>contracts := store_contract contract' (contracts ex)\<rparr>)))"

section \<open>services/blockchain/contract\_deployer.py\<close>

record deployment =
  dp_contract_id :: string
  dp_transaction_hash :: string
  dp_deployed_at :: nat

record contract_deployer =
  deployed_contracts :: "deployment list"
  cd_executor :: executor

definition ContractDeployer_init :: contract_deployer where
  "ContractDeployer_init = \<lparr>deployed_contracts = [], cd_executor = SmartContractExecutor_init\<rparr>"

text \<open>
  \<open>new_id\<close> and \<open>created\<close> are the uuid and the clock reading of the constructor,
  \<open>deployed\<close> and \<open>recorded\<close> the clock readings of the deployment and of its record.
\<close>

definition deployer_deploy ::
  "pylib \<Rightarrow> contract_deployer \<Rightarrow> string \<Rightarrow> string \<Rightarrow> string \<Rightarrow> rat \<Rightarrow> rat \<Rightarrow> string \<Rightarrow> nat \<Rightarrow> nat
     \<Rightarrow> nat \<Rightarrow> contract_dict \<times> contract_deployer" where
  "deployer_deploy L dep buyer_id seller_id energy_type quantity price new_id created deployed
       recorded =
     (let contract = SmartContract_init L buyer_id seller_id energy_type quantity price None
                       ''pending'' None new_id created;
          (transaction_hash, contract') = contract_deploy deployed contract
      in (to_dict L contract',
          dep\<lparr>cd_executor := add_contract (cd_executor dep) contract',
              deployed_contracts := deployed_contracts dep @
                [\<lparr>dp_contract_id = c_id contract', dp_transaction_hash = transaction_hash,
                  dp_deployed_at = recorded\<rparr>]\<rparr>))"

section \<open>services/matching\_engine/order\_matcher.py\<close>

record match_record =
  m_order1_id :: string
  m_order2_id :: string
  m_contract_id :: string
  m_execution_price :: rat
  m_quantity :: rat
  m_execution_time :: rat
  m_matched_at :: nat

record order_matcher =
  matched_orders :: "match_record list"
  total_matches :: nat
  total_volume :: rat
  average_match_time :: rat

definition OrderMatcher_init :: order_matcher where
  "OrderMatcher_init =
     \<lparr>matched_orders = [], total_matches = 0, total_volume = 0, average_match_time = 0\<rparr>"

text \<open>
  \<^verbatim>\<open>_find_best_match\<close>. The value it returns for a non-empty selection is the
  whole sorted list \<^verbatim>\<open>compatible\<close>, and \<^verbatim>\<open>None\<close> otherwise.
\<close>

definition find_best_match :: "transaction \<Rightarrow> transaction list \<Rightarrow> transaction list option" where
  "find_best_match ord candidates =
     (if candidates = [] then None
      else (let compatible =
                  (if t_order_type ord = ''buy''
                   then sort_key (\<lambda>x. (t_price x, t_created_at x))
                          (filter (\<lambda>c. t_price c \<le> t_price ord) candidates)
                   else sort_key (\<lambda>x. (- t_price x, t_created_at x))
                          (filter (\<lambda>c. t_price ord \<le> t_price c) candidates))
            in if compatible \<noteq> [] then Some compatible else None))"

text \<open>
  The second argument of \<^verbatim>\<open>_execute_match\<close> is whatever the caller passes: a
  transaction, or a list of transactions, which has none of a transaction's
  attributes.
\<close>

datatype candidate = One transaction | Many "transaction list"

text \<open>The values \<^verbatim>\<open>_execute_match\<close> reads from the clock, the uuid generator and the random generator, in the order it reads them.\<close>

record match_env =
  env_now_matched1 :: nat
  env_now_matched2 :: nat
  env_contract_uuid :: string
  env_contract_created :: nat
  env_contract_deployed :: nat
  env_deployment_recorded :: nat
  env_inner_execution_time :: rat
  env_contract_executed :: nat
  env_gas_draw :: rat
  env_outer_execution_time :: rat
  env_now_completed1 :: nat
  env_now_completed2 :: nat
  env_matched_at :: nat

text \<open>
  What a call of \<^verbatim>\<open>_execute_match\<close> leaves behind: the exception it raised, if
  any, and the two orders and the matcher as it mutated them up to that point.
\<close>

record match_result =
  mr_raised :: "py_error option"
  mr_order1 :: transaction
  mr_order2 :: candidate
  mr_matcher :: order_matcher

text \<open>
  \<^verbatim>\<open>_execute_match\<close>. With a list as second argument, the execution price reads
  \<^verbatim>\<open>.price\<close> of the list in either branch and raises before anything is
  changed. The deployer and the executor are both created inside the call, so the
  executor that runs the contract is not the one the deployer added it to.
\<close>

definition execute_match ::
  "pylib \<Rightarrow> order_matcher \<Rightarrow> transaction \<Rightarrow> candidate \<Rightarrow> match_env \<Rightarrow> match_result" where
  "execute_match L m order1 order2 env =
     (case order2 of
        Many cs \<Rightarrow>
          \<lparr>mr_raised = Some AttributeError, mr_order1 = order1, mr_order2 = order2, mr_matcher = m\<rparr>
      | One o2 \<Rightarrow>
          (let buyer_order = (if t_order_type order1 = ''buy'' then order1 else o2);
               seller_order = (if t_order_type order1 = ''buy'' then o2 else order1);
               execution_price = (t_price buyer_order + t_price seller_order) / 2;
               order1' = mark_matched (t_id o2) (env_now_matched1 env) order1;
               o2' = mark_matched (t_id order1') (env_now_matched2 env) o2;
               (contract, contract_deployer) =
                 deployer_deploy L ContractDeployer_init (t_user_id buyer_order)
                   (t_user_id seller_order) (t_energy_type order1') (t_quantity order1')
                   execution_price (env_contract_uuid env) (env_contract_created env)
                   (env_contract_deployed env) (env_deployment_recorded env)
           in case executor_execute SmartContractExecutor_init (d_id contract)
                     (env_inner_execution_time env) (env_contract_executed env) (env_gas_draw env) of
                Inl e \<Rightarrow>
                  \<lparr>mr_raised = Some e, mr_order1 = order1', mr_order2 = One o2', mr_matcher = m\<rparr>
              | Inr executed \<Rightarrow>
                  (let execution_time = env_outer_execution_time env;
                       order1'' = mark_completed (d_id contract) execution_time
                                    (env_now_completed1 env) order1';
                       o2'' = mark_completed (d_id contract) execution_time
                                (env_now_completed2 env) o2';
                       matches = total_matches m + 1;
                       total_time = average_match_time m * of_nat (matches - 1) + execution_time
                   in \<lparr>mr_raised = None, mr_order1 = order1'', mr_order2 = One o2'',
                       mr_matcher = m\<lparr>total_matches := matches,
                         total_volume := total_volume m + t_quantity order1'',
                         average_match_time := total_time / of_nat matches,
                         matched_orders := matched_orders m @
                           [\<lparr>m_order1_id = t_id order1'', m_order2_id = t_id o2'',
                             m_contract_id = d_id contract, m_execution_price = execution_price,
                             m_quantity = t_quantity order1'', m_execution_time = execution_time,
                             m_matched_at = env_matched_at env\<rparr>]\<rparr>\<rparr>)))"

text \<open>
  \<^verbatim>\<open>match_order\<close>. The pending orders are read from a transaction service
  that the method constructs itself. Returned: the value or exception of the
  call, the new order and the matcher as the call left them.
\<close>

definition match_order ::
  "pylib \<Rightarrow> order_matcher \<Rightarrow> transaction \<Rightarrow> match_env
     \<Rightarrow> (py_error + bool) \<times> transaction \<times> order_matcher" where
  "match_order L m new_order env =
     (let transaction_service = TransactionService_init;
          opposite_type = (if t_order_type new_order = ''buy'' then ''sell'' else ''buy'');
          pending_orders =
            filter (\<lambda>t. t_order_type t = opposite_type)
              (get_pending_orders transaction_service (Some (t_energy_type new_order)))
      in if pending_orders = [] then (Inr False, new_order, m)
         else (case find_best_match new_order pending_orders of
                 None \<Rightarrow> (Inr False, new_order, m)
               | Some best_match \<Rightarrow>
                   (let r = execute_match L m new_order (Many best_match) env
                    in case mr_raised r of
                         Some e \<Rightarrow> (Inl e, mr_order1 r, mr_matcher r)
                       | None \<Rightarrow> (Inr True, mr_order1 r, mr_matcher r))))"

section \<open>api/routes/trades.py\<close>

text \<open>
  The module holds one transaction service and one order matcher. A request
  carries the five required fields; the response is the status code and, on
  success, the created transaction and the \<^verbatim>\<open>matched\<close> flag.
\<close>

record engine =
  eng_transaction_service :: transaction_service
  eng_order_matcher :: order_matcher

definition engine_init :: engine where
  "engine_init = \<lparr>eng_transaction_service = TransactionService_init,
                  eng_order_matcher = OrderMatcher_init\<rparr>"

record trade_request =
  rq_energy_type :: string
  rq_quantity :: rat
  rq_price :: rat
  rq_order_type :: string
  rq_user_id :: string

record trade_response =
  rs_status_code :: nat
  rs_transaction :: "transaction option"
  rs_matched :: "bool option"

definition create_trade ::
  "pylib \<Rightarrow> engine \<Rightarrow> trade_request \<Rightarrow> string \<Rightarrow> nat \<Rightarrow> nat \<Rightarrow> match_env
     \<Rightarrow> trade_response \<times> engine" where
  "create_trade L eng data new_id now now' env =
     (if rq_energy_type data \<notin> set [''solar'', ''wind'', ''hydro'', ''biomass'']
      then (\<lparr>rs_status_code = 400, rs_transaction = None, rs_matched = None\<rparr>, eng)
      else if rq_order_type data \<notin> set [''buy'', ''sell'']
      then (\<lparr>rs_status_code = 400, rs_transaction = None, rs_matched = None\<rparr>, eng)
      else if rq_quantity data \<le> 0 \<or> rq_price data \<le> 0
      then (\<lparr>rs_status_code = 400, rs_transaction = None, rs_matched = None\<rparr>, eng)
      else (let (transaction, service) =
                  create_transaction (eng_transaction_service eng) (rq_energy_type data)
                    (rq_quantity data) (rq_price data) (rq_order_type data) (rq_user_id data)
                    new_id now now';
                (outcome, transaction', matcher) =
                  match_order L (eng_order_matcher eng) transaction env;
                eng' = \<lparr>eng_transaction_service =
                          service\<lparr>transactions := butlast (transactions service) @ [transaction']\<rparr>,
                        eng_order_matcher = matcher\<rparr>
            in case outcome of
                 Inl e \<Rightarrow> (\<lparr>rs_status_code = 500, rs_transaction = None, rs_matched = None\<rparr>, eng')
               | Inr matched \<Rightarrow>
                   (\<lparr>rs_status_code = 201, rs_transaction = Some transaction',
                     rs_matched = Some matched\<rparr>, eng')))"

section \<open>Concrete registries used in the scenarios\<close>

text \<open>A matched pair: buy order A and sell order B, each naming the other.\<close>

definition tx_a :: transaction where
  "tx_a = \<lparr>t_id = ''A'', t_energy_type = ''solar'', t_quantity = 100, t_price = 12 / 100,
      t_order_type = ''buy'', t_user_id = ''u1'', t_status = ''matched'',
      t_created_at = 1, t_updated_at = 3, t_matched_with = Some ''B'',
      t_contract_id = None, t_execution_time = None\<rparr>"

definition tx_b :: transaction where
  "tx_b = \<lparr>t_id = ''B'', t_energy_type = ''solar'', t_quantity = 100, t_price = 10 / 100,
      t_order_type = ''sell'', t_user_id = ''u2'', t_status = ''matched'',
      t_created_at = 2, t_updated_at = 3, t_matched_with = Some ''A'',
      t_contract_id = None, t_execution_time = None\<rparr>"

text \<open>One completed order and one order that is still pending and was never matched.\<close>

definition stats_registry :: transaction_service where
  "stats_registry = \<lparr>transactions =
     [tx_a\<lparr>t_status := ''completed''\<rparr>, tx_b\<lparr>t_status := ''pending'', t_matched_with := None\<rparr>]\<rparr>"

text \<open>
  Arithmetic without rounding error. Float arithmetic agrees with it wherever the
  operands and the exact result are floats, as for 1 / 2, 0.5 * 100 and the
  rounding of 50.0 in the statistics of the registry above.
\<close>

definition exact_ops :: float_ops where
  "exact_ops = \<lparr>fl_add = (+), fl_mul = (*), fl_div = (/), fl_round = round_ndigits\<rparr>"

text \<open>
  The orders of the repository's own test of the best bid and ask
  (\<^verbatim>\<open>test_best_bid_ask\<close>), and a second bid at the same price.
\<close>

definition order_3 :: order where
  "order_3 = \<lparr>o_id = ''order-3'', o_energy_type = ''hydro'', o_order_type = ''buy'',
      o_price = 8 / 100, o_quantity = 100, o_user_id = ''user-1''\<rparr>"

definition order_4 :: order where
  "order_4 = \<lparr>o_id = ''order-4'', o_energy_type = ''hydro'', o_order_type = ''sell'',
      o_price = 9 / 100, o_quantity = 100, o_user_id = ''user-2''\<rparr>"

definition order_5 :: order where
  "order_5 = \<lparr>o_id = ''order-5'', o_energy_type = ''hydro'', o_order_type = ''buy'',
      o_price = 8 / 100, o_quantity = 40, o_user_id = ''user-3''\<rparr>"

definition add_then ::
  "py_error + (bool \<times> order_book) \<Rightarrow> order \<Rightarrow> nat \<Rightarrow> py_error + (bool \<times> order_book)" where
  "add_then r ord now = (case r of Inl e \<Rightarrow> Inl e | Inr (ok, books) \<Rightarrow> add_order books ord now)"

text \<open>The test's book: a bid and an ask for hydro, added one after the other.\<close>

definition hydro_book :: "py_error + (bool \<times> order_book)" where
  "hydro_book = add_then (add_order OrderBook_init order_3 1) order_4 2"

text \<open>Two bids at the same price whose clock readings coincide.\<close>

definition same_tick_book :: "py_error + (bool \<times> order_book)" where
  "same_tick_book = add_then (add_order OrderBook_init order_3 5) order_5 5"

text \<open>
  The book these two bids leave, a higher bid, the book after that bid is added at
  a later clock reading, and the book after the first bid is removed again.
\<close>

definition two_bids_book :: order_book where
  "two_bids_book = OrderBook_init(''hydro'' \<mapsto>
     empty_sides(''buy'' \<mapsto> [entry_of order_3 5, entry_of order_5 5]))"

definition order_6 :: order where
  "order_6 = \<lparr>o_id = ''order-6'', o_energy_type = ''hydro'', o_order_type = ''buy'',
      o_price = 9 / 100, o_quantity = 10, o_user_id = ''user-4''\<rparr>"

definition three_bids_book :: order_book where
  "three_bids_book = OrderBook_init(''hydro'' \<mapsto>
     empty_sides(''buy'' \<mapsto> [entry_of order_6 6, entry_of order_3 5, entry_of order_5 5]))"

definition bids_after_remove :: order_book where
  "bids_after_remove = OrderBook_init(''hydro'' \<mapsto>
     empty_sides(''buy'' \<mapsto> [entry_of order_6 6, entry_of order_5 5]))"

text \<open>
  The digest on the two strings that the verification scenarios hash, with the
  values \<^verbatim>\<open>hashlib.sha256\<close> gives for them; no other input is hashed there.
\<close>

definition sha_table :: "string \<Rightarrow> string" where
  "sha_table s =
     (if s = ''a'' then ''ca978112ca1bbdcafac231b39a23dc4da786eff8147c4e72b9807785afee48bb''
      else if s = ''a:b'' then ''6783a31eabf68ccc0660f935c0826282bdd2241f3a80a9f2d10d59aea9ebb5d8''
      else replicate 64 CHR ''0'')"

definition steady_clock :: "nat \<Rightarrow> nat \<times> rat" where
  "steady_clock k = (10 + k, 1 / 10)"



text \<open>
  A fresh service after one call of \<^verbatim>\<open>verify\<close> for contract \<^verbatim>\<open>a\<close> with
  the hash \<^verbatim>\<open>b:\<close> followed by the digest of \<^verbatim>\<open>a:b\<close>.
\<close>

definition poisoned_service :: verification_service where
  "poisoned_service =
     snd (verify sha_table VerificationService_init ''a'' (''b:'' @ sha_table ''a:b'') 1 (1 / 10))"

text \<open>
  Stand-ins for the library's formatting functions, and a contract for 100 kWh of
  solar energy at 0.11.
\<close>

definition test_lib :: pylib where
  "test_lib = \<lparr>sha256_hexdigest = sha_table,
      str_float = (\<lambda>x. if x = 100 then ''100.0'' else ''0.11''),
      str_datetime = (\<lambda>d. replicate d CHR ''t''),
      isoformat = (\<lambda>d. replicate d CHR ''T''),
      fromisoformat = (\<lambda>txt. Some (length txt))\<rparr>"

definition solar_contract :: smart_contract where
  "solar_contract =
     SmartContract_init test_lib ''u1'' ''u2'' ''solar'' 100 (11 / 100) None ''pending'' None ''c-1'' 3"

definition solar_contract_executed :: smart_contract where
  "solar_contract_executed =
     snd (contract_execute (1 / 10) 9 (3 / 1000) (snd (contract_deploy 5 solar_contract)))"

text \<open>The price test that \<open>find_best_match\<close> applies to a candidate.\<close>

definition price_compatible :: "transaction \<Rightarrow> transaction \<Rightarrow> bool" where
  "price_compatible ord c =
     (if t_order_type ord = ''buy'' then t_price c \<le> t_price ord else t_price ord \<le> t_price c)"

text \<open>Environment readings for one call of the matcher.\<close>

definition env0 :: match_env where
  "env0 = \<lparr>env_now_matched1 = 4, env_now_matched2 = 4, env_contract_uuid = ''c-1'',
      env_contract_created = 4, env_contract_deployed = 4, env_deployment_recorded = 4,
      env_inner_execution_time = 1 / 10, env_contract_executed = 5, env_gas_draw = 3 / 1000,
      env_outer_execution_time = 1 / 10, env_now_completed1 = 5, env_now_completed2 = 5,
      env_matched_at = 5\<rparr>"

text \<open>Scenario S1: a sell of 100 kWh solar at 0.10 by u2, then a buy of 100 kWh at 0.12 by u1.\<close>

definition sell_request :: trade_request where
  "sell_request = \<lparr>rq_energy_type = ''solar'', rq_quantity = 100, rq_price = 10 / 100,
      rq_order_type = ''sell'', rq_user_id = ''u2''\<rparr>"

definition buy_request :: trade_request where
  "buy_request = \<lparr>rq_energy_type = ''solar'', rq_quantity = 100, rq_price = 12 / 100,
      rq_order_type = ''buy'', rq_user_id = ''u1''\<rparr>"

definition after_sell :: "trade_response \<times> engine" where
  "after_sell = create_trade test_lib engine_init sell_request ''t-sell'' 1 1 env0"

definition after_buy :: "trade_response \<times> engine" where
  "after_buy = create_trade test_lib (snd after_sell) buy_request ''t-buy'' 2 2 env0"

text \<open>Scenario S4: two biomass sells at 0.15, created at 1 and 2, and a buy at 0.16 created at 3.\<close>

definition sell_a :: transaction where
  "sell_a = Transaction_init ''biomass'' 50 (15 / 100) ''sell'' ''uA'' ''t-a'' 1 1"

definition sell_b :: transaction where
  "sell_b = Transaction_init ''biomass'' 50 (15 / 100) ''sell'' ''uB'' ''t-b'' 2 2"

definition buy_c :: transaction where
  "buy_c = Transaction_init ''biomass'' 50 (16 / 100) ''buy'' ''uC'' ''t-c'' 3 3"

text \<open>Scenario S3: a hydro sell of 200 kWh at 0.08 and a hydro buy of 100 kWh at 0.09.\<close>

definition sell_hydro :: transaction where
  "sell_hydro = Transaction_init ''hydro'' 200 (8 / 100) ''sell'' ''u2'' ''t-s'' 1 1"

definition buy_hydro :: transaction where
  "buy_hydro = Transaction_init ''hydro'' 100 (9 / 100) ''buy'' ''u1'' ''t-b'' 2 2"

definition hydro_sell_request :: trade_request where
  "hydro_sell_request = \<lparr>rq_energy_type = ''hydro'', rq_quantity = 200, rq_price = 8 / 100,
      rq_order_type = ''sell'', rq_user_id = ''u2''\<rparr>"

definition hydro_buy_request :: trade_request where
  "hydro_buy_request = \<lparr>rq_energy_type = ''hydro'', rq_quantity = 100, rq_price = 9 / 100,
      rq_order_type = ''buy'', rq_user_id = ''u1''\<rparr>"

definition after_hydro_sell :: "trade_response \<times> engine" where
  "after_hydro_sell = create_trade test_lib engine_init hydro_sell_request ''t-s'' 1 1 env0"

section \<open>Registry lookups and in-place updates\<close>

lemma find_transaction_Some_id:
  "find_transaction tid ts = Some t \<Longrightarrow> t_id t = tid \<and> t \<in> set ts"
  by (induction ts) (auto split: if_splits)

lemma length_update_found: "length (update_found f tid ts) = length ts"
  by (induction ts) auto

lemma update_found_other:
  "i < length ts \<Longrightarrow> t_id (ts ! i) \<noteq> tid \<Longrightarrow> update_found f tid ts ! i = ts ! i"
proof (induction ts arbitrary: i)
  case Nil
  then show ?case by simp
next
  case (Cons t ts)
  then show ?case by (cases i) auto
qed

lemma find_update_found:
  "find_transaction tid ts = Some t \<Longrightarrow> t_id (f t) = tid \<Longrightarrow>
   find_transaction tid (update_found f tid ts) = Some (f t)"
  by (induction ts) (auto split: if_splits)

section \<open>Cancellation\<close>

text \<open>
  C4, as stated, fails: cancelling the matched order A succeeds, but the
  counterparty B is left exactly as it was, in state matched; it is not reverted to
  pending. \<open>cancel_transaction\<close> has no access to any contract, so the outcome is
  the same whatever the state of the pair's contract.
\<close>

theorem cancel_matched_leaves_counterparty_matched:
  "cancel_transaction \<lparr>transactions = [tx_a, tx_b]\<rparr> ''A'' 7
     = (True, \<lparr>transactions = [tx_a\<lparr>t_status := ''cancelled'', t_updated_at := 7\<rparr>, tx_b]\<rparr>)
   \<and> t_status tx_b = ''matched''"
  by (simp add: cancel_transaction_def get_transaction_by_id_def can_be_cancelled_def
        update_status_def tx_a_def tx_b_def)

text \<open>
  C4, amended: cancellation succeeds exactly when the id names a transaction that
  is pending or matched; it then sets that transaction to cancelled (stamping
  \<open>updated_at\<close>) and changes nothing else: every transaction with another id, the
  counterparty included, keeps all its fields. A refused cancellation changes no
  state.
\<close>

theorem cancel_transaction_effect:
  assumes "cancel_transaction s tid now = (ok, s')"
  shows "(ok \<longleftrightarrow> (\<exists>t. get_transaction_by_id s tid = Some t \<and> can_be_cancelled t))
       \<and> (\<not> ok \<longrightarrow> s' = s)
       \<and> (ok \<longrightarrow> (\<exists>t. get_transaction_by_id s tid = Some t
                 \<and> get_transaction_by_id s' tid
                     = Some (t\<lparr>t_status := ''cancelled'', t_updated_at := now\<rparr>)))
       \<and> length (transactions s') = length (transactions s)
       \<and> (\<forall>i < length (transactions s). t_id (transactions s ! i) \<noteq> tid
             \<longrightarrow> transactions s' ! i = transactions s ! i)"
proof (cases "get_transaction_by_id s tid")
  case None
  with assms show ?thesis by (auto simp: cancel_transaction_def)
next
  case (Some t)
  show ?thesis
  proof (cases "can_be_cancelled t")
    case False
    with Some assms show ?thesis by (auto simp: cancel_transaction_def)
  next
    case True
    with Some assms have ok: ok
      and s': "s' = s\<lparr>transactions :=
                 update_found (update_status ''cancelled'' now) tid (transactions s)\<rparr>"
      by (auto simp: cancel_transaction_def)
    from Some have ft: "find_transaction tid (transactions s) = Some t"
      by (simp add: get_transaction_by_id_def)
    then have "t_id t = tid" by (simp add: find_transaction_Some_id)
    then have "find_transaction tid
                 (update_found (update_status ''cancelled'' now) tid (transactions s))
                 = Some (update_status ''cancelled'' now t)"
      using ft by (intro find_update_found) (simp_all add: update_status_def)
    then have "get_transaction_by_id s' tid
                 = Some (t\<lparr>t_status := ''cancelled'', t_updated_at := now\<rparr>)"
      by (simp add: s' get_transaction_by_id_def update_status_def)
    with ok Some True show ?thesis
      by (simp add: s' length_update_found update_found_other)
  qed
qed

theorem cancel_transaction_effect_witness:
  "cancel_transaction \<lparr>transactions = [tx_a, tx_b]\<rparr> ''A'' 7
     = (True, \<lparr>transactions = [tx_a\<lparr>t_status := ''cancelled'', t_updated_at := 7\<rparr>, tx_b]\<rparr>)
   \<and> get_transaction_by_id \<lparr>transactions = [tx_a, tx_b]\<rparr> ''A'' = Some tx_a
   \<and> can_be_cancelled tx_a
   \<and> [tx_a\<lparr>t_status := ''cancelled'', t_updated_at := 7\<rparr>, tx_b] ! 1 = [tx_a, tx_b] ! 1"
proof -
  have run: "cancel_transaction \<lparr>transactions = [tx_a, tx_b]\<rparr> ''A'' 7
     = (True, \<lparr>transactions = [tx_a\<lparr>t_status := ''cancelled'', t_updated_at := 7\<rparr>, tx_b]\<rparr>)"
    by (simp add: cancel_transaction_def get_transaction_by_id_def can_be_cancelled_def
          update_status_def tx_a_def tx_b_def)
  have found: "get_transaction_by_id \<lparr>transactions = [tx_a, tx_b]\<rparr> ''A'' = Some tx_a"
    by (simp add: get_transaction_by_id_def tx_a_def)
  have ok: "can_be_cancelled tx_a"
    by (simp add: can_be_cancelled_def tx_a_def)
  from cancel_transaction_effect [OF run] run found ok show ?thesis
    by simp
qed

section \<open>Statistics\<close>

text \<open>
  C6, as stated, fails: with one completed and one pending, never matched order the
  service reports 50 percent, where completed over (completed + failed +
  cancelled after match) is 100 percent.
\<close>

theorem success_rate_counts_pending_orders:
  "success_rate_percentage (get_statistics exact_ops stats_registry) = 50
   \<and> spec_success_rate stats_registry = 100"
  by (simp add: get_statistics_def spec_success_rate_def stats_registry_def count_status_def
        tx_a_def tx_b_def round_ndigits_def exact_ops_def)

text \<open>
  C6, amended: the reported success rate is \<^verbatim>\<open>round(completed / total * 100, 2)\<close>
  as the interpreter's float arithmetic computes it, where completed is the number
  of completed transactions and total the number of all transactions in the
  registry, whatever their state; it is 0 for an empty registry.
\<close>

theorem success_rate_over_all_transactions:
  "success_rate_percentage (get_statistics F s) =
     (if transactions s = [] then 0
      else fl_round F
             (fl_mul F (fl_div F (of_nat (count_status ''completed'' (transactions s)))
                                 (of_nat (length (transactions s)))) 100) 2)
   \<and> total_transactions (get_statistics F s) = length (transactions s)"
  by (simp add: get_statistics_def Let_def)

theorem success_rate_over_all_transactions_witness:
  "transactions stats_registry \<noteq> []
   \<and> count_status ''completed'' (transactions stats_registry) = 1
   \<and> length (transactions stats_registry) = 2
   \<and> success_rate_percentage (get_statistics exact_ops stats_registry)
       = fl_round exact_ops (fl_mul exact_ops (fl_div exact_ops 1 2) 100) 2"
proof -
  have ne: "transactions stats_registry \<noteq> []"
    and c: "count_status ''completed'' (transactions stats_registry) = 1"
    and n: "length (transactions stats_registry) = 2"
    by (simp_all add: stats_registry_def count_status_def tx_a_def tx_b_def)
  from success_rate_over_all_transactions [of exact_ops stats_registry] ne c n
  show ?thesis by simp
qed

section \<open>Order book: best bid and ask\<close>

text \<open>
  C5: the claim is what the source's own test expects, and the code fails it. On
  the test's book (one hydro bid at 0.08, one hydro ask at 0.09) both orders are
  resting, and \<open>get_best_bid_ask\<close> raises \<^verbatim>\<open>TypeError\<close> instead of
  returning the two prices: the price lookup subscripts the list of entries with
  the string \<^verbatim>\<open>'price'\<close>.
\<close>

theorem best_bid_ask_raises_on_resting_orders:
  "(case hydro_book of
      Inl e \<Rightarrow> False
    | Inr (ok, books) \<Rightarrow>
        ok \<and> book_side books ''hydro'' ''buy'' = Some [entry_of order_3 1]
           \<and> book_side books ''hydro'' ''sell'' = Some [entry_of order_4 2]
           \<and> get_best_bid_ask books ''hydro'' = Inl TypeError)"
  by (simp add: hydro_book_def add_then_def add_order_def OrderBook_init_def order_3_def
        order_4_def sort_book_def entry_of_def empty_sides_def book_side_def
        get_best_bid_ask_def list_getitem_str_def Let_def)

text \<open>The same for every book: a side that is not empty makes the lookup raise.\<close>

lemma get_best_bid_ask_nonempty:
  assumes "book_side books energy_type ''buy'' = Some buy_orders"
    and "book_side books energy_type ''sell'' = Some sell_orders"
    and "buy_orders \<noteq> [] \<or> sell_orders \<noteq> []"
  shows "get_best_bid_ask books energy_type = Inl TypeError"
  using assms
  by (auto simp: get_best_bid_ask_def book_side_def list_getitem_str_def split: option.splits)

section \<open>Order book: priority order\<close>

lemma not_after_sort_buy:
  "sorted_wrt (not_after ''buy'') (sort_key (\<lambda>x. (- e_price x, e_timestamp x)) es)"
proof -
  have "sorted (map (\<lambda>x. (- e_price x, e_timestamp x))
                  (sort_key (\<lambda>x. (- e_price x, e_timestamp x)) es))"
    by (rule sorted_sort_key)
  then have h: "sorted_wrt (\<lambda>x y. (- e_price x, e_timestamp x) \<le> (- e_price y, e_timestamp y))
                  (sort_key (\<lambda>x. (- e_price x, e_timestamp x)) es)"
    by (simp add: sorted_map)
  show ?thesis
  proof (rule sorted_wrt_mono_rel [OF _ h])
    fix x y :: book_entry
    assume "(- e_price x, e_timestamp x) \<le> (- e_price y, e_timestamp y)"
    then show "not_after ''buy'' x y"
      by (auto simp: not_after_def better_price_def)
  qed
qed

lemma not_after_sort_other:
  assumes "order_type \<noteq> ''buy''"
  shows "sorted_wrt (not_after order_type) (sort_key (\<lambda>x. (e_price x, e_timestamp x)) es)"
proof -
  have "sorted (map (\<lambda>x. (e_price x, e_timestamp x))
                  (sort_key (\<lambda>x. (e_price x, e_timestamp x)) es))"
    by (rule sorted_sort_key)
  then have h: "sorted_wrt (\<lambda>x y. (e_price x, e_timestamp x) \<le> (e_price y, e_timestamp y))
                  (sort_key (\<lambda>x. (e_price x, e_timestamp x)) es)"
    by (simp add: sorted_map)
  show ?thesis
  proof (rule sorted_wrt_mono_rel [OF _ h])
    fix x y :: book_entry
    assume "(e_price x, e_timestamp x) \<le> (e_price y, e_timestamp y)"
    with assms show "not_after order_type x y"
      by (auto simp: not_after_def better_price_def)
  qed
qed

lemma OrderBook_init_ordered: "book_ordered OrderBook_init"
  by (auto simp: book_ordered_def book_side_def OrderBook_init_def empty_sides_def
           split: if_splits)

lemma add_order_ordered:
  assumes inv: "book_ordered books" and run: "add_order books ord now = Inr (r, books')"
  shows "book_ordered books'"
proof (cases "books (o_energy_type ord)")
  case None
  with run inv show ?thesis by (simp add: add_order_def)
next
  case (Some sides)
  with run obtain entries where ent: "sides (o_order_type ord) = Some entries"
    by (auto simp: add_order_def Let_def split: option.splits)
  define sorted_entries where "sorted_entries =
     (if o_order_type ord = ''buy''
      then sort_key (\<lambda>x. (- e_price x, e_timestamp x)) (entries @ [entry_of ord now])
      else sort_key (\<lambda>x. (e_price x, e_timestamp x)) (entries @ [entry_of ord now]))"
  have so: "sorted_wrt (not_after (o_order_type ord)) sorted_entries"
    unfolding sorted_entries_def by (simp add: not_after_sort_buy not_after_sort_other)
  from run Some ent
  have books': "books' = books(o_energy_type ord \<mapsto> sides(o_order_type ord \<mapsto> sorted_entries))"
    by (simp add: add_order_def sort_book_def Let_def sorted_entries_def)
  show ?thesis
    unfolding book_ordered_def
  proof (intro allI impI)
    fix energy_type order_type es
    assume look: "book_side books' energy_type order_type = Some es"
    show "sorted_wrt (not_after order_type) es"
    proof (cases "energy_type = o_energy_type ord \<and> order_type = o_order_type ord")
      case True
      with look so show ?thesis by (simp add: books' book_side_def)
    next
      case False
      with look Some have "book_side books energy_type order_type = Some es"
        by (auto simp: books' book_side_def split: if_splits)
      with inv show ?thesis by (simp add: book_ordered_def)
    qed
  qed
qed

lemma remove_order_ordered:
  assumes inv: "book_ordered books"
    and run: "remove_order books energy_type order_type order_id = Inr (r, books')"
  shows "book_ordered books'"
proof (cases "books energy_type")
  case None
  with run inv show ?thesis by (simp add: remove_order_def)
next
  case (Some sides)
  with run obtain entries where ent: "sides order_type = Some entries"
    by (auto simp: remove_order_def Let_def split: option.splits)
  from Some ent have "book_side books energy_type order_type = Some entries"
    by (simp add: book_side_def)
  with inv have "sorted_wrt (not_after order_type) entries"
    by (simp add: book_ordered_def)
  then have so: "sorted_wrt (not_after order_type)
                   (filter (\<lambda>entry. e_id entry \<noteq> order_id) entries)"
    by (rule sorted_wrt_filter)
  from run Some ent
  have books': "books' = books(energy_type \<mapsto>
                  sides(order_type \<mapsto> filter (\<lambda>entry. e_id entry \<noteq> order_id) entries))"
    by (simp add: remove_order_def Let_def)
  show ?thesis
    unfolding book_ordered_def
  proof (intro allI impI)
    fix et ot es
    assume look: "book_side books' et ot = Some es"
    show "sorted_wrt (not_after ot) es"
    proof (cases "et = energy_type \<and> ot = order_type")
      case True
      with look so show ?thesis by (simp add: books' book_side_def)
    next
      case False
      with look Some have "book_side books et ot = Some es"
        by (auto simp: books' book_side_def split: if_splits)
      with inv show ?thesis by (simp add: book_ordered_def)
    qed
  qed
qed

text \<open>
  C7, as stated, fails: two bids at the same price that are stamped with the same
  clock reading rest one before the other, and the earlier entry is neither
  strictly better priced nor strictly earlier.
\<close>

theorem same_tick_entries_not_strictly_ordered:
  "(case same_tick_book of
      Inl e \<Rightarrow> False
    | Inr (ok, books) \<Rightarrow>
        ok \<and> book_side books ''hydro'' ''buy'' = Some [entry_of order_3 5, entry_of order_5 5])
   \<and> \<not> strictly_before ''buy'' (entry_of order_3 5) (entry_of order_5 5)"
  by (simp add: same_tick_book_def add_then_def add_order_def OrderBook_init_def order_3_def
        order_5_def sort_book_def entry_of_def empty_sides_def book_side_def
        strictly_before_def better_price_def Let_def)

lemma add_order_side:
  assumes side: "book_side books (o_energy_type ord) (o_order_type ord) = Some es"
    and run: "add_order books ord now = Inr (r, books')"
  shows "r \<and> (\<exists>es'. book_side books' (o_energy_type ord) (o_order_type ord) = Some es'
                \<and> mset es' = mset (es @ [entry_of ord now])
                \<and> (\<forall>p t. filter (\<lambda>x. e_price x = p \<and> e_timestamp x = t) es'
                        = filter (\<lambda>x. e_price x = p \<and> e_timestamp x = t)
                            (es @ [entry_of ord now])))"
proof -
  from side obtain sides where b: "books (o_energy_type ord) = Some sides"
    and sd: "sides (o_order_type ord) = Some es"
    by (auto simp: book_side_def split: option.splits)
  define key_buy where "key_buy = (\<lambda>x :: book_entry. (- e_price x, e_timestamp x))"
  define key_sell where "key_sell = (\<lambda>x :: book_entry. (e_price x, e_timestamp x))"
  define es' where "es' =
     (if o_order_type ord = ''buy'' then sort_key key_buy (es @ [entry_of ord now])
      else sort_key key_sell (es @ [entry_of ord now]))"
  from run b sd have r: r
    and books': "books' = books(o_energy_type ord \<mapsto> sides(o_order_type ord \<mapsto> es'))"
    by (auto simp: add_order_def sort_book_def Let_def es'_def key_buy_def key_sell_def)
  have look: "book_side books' (o_energy_type ord) (o_order_type ord) = Some es'"
    by (simp add: books' book_side_def)
  have content: "mset es' = mset (es @ [entry_of ord now])"
    by (simp add: es'_def)
  have stable: "filter (\<lambda>x. e_price x = p \<and> e_timestamp x = t) es'
                  = filter (\<lambda>x. e_price x = p \<and> e_timestamp x = t) (es @ [entry_of ord now])"
    for p t
  proof (cases "o_order_type ord = ''buy''")
    case True
    have "(\<lambda>x. e_price x = p \<and> e_timestamp x = t) = (\<lambda>x. key_buy x = (- p, t))"
      by (auto simp: key_buy_def)
    with True show ?thesis
      by (simp add: es'_def sort_key_stable)
  next
    case False
    have "(\<lambda>x. e_price x = p \<and> e_timestamp x = t) = (\<lambda>x. key_sell x = (p, t))"
      by (auto simp: key_sell_def)
    with False show ?thesis
      by (simp add: es'_def sort_key_stable)
  qed
  from r look content stable show ?thesis by blast
qed

lemma remove_order_side:
  assumes side: "book_side books energy_type order_type = Some es"
    and run: "remove_order books energy_type order_type order_id = Inr (r, books')"
  shows "book_side books' energy_type order_type
           = Some (filter (\<lambda>entry. e_id entry \<noteq> order_id) es)"
  using assms
  by (auto simp: remove_order_def book_side_def Let_def split: option.splits)

text \<open>
  C7, amended: every insert and every remove preserves the order of every book in
  which an entry X precedes an entry Y only if X's price is strictly better
  (higher on the buy side, lower on the sell side), or the prices are equal and
  X's timestamp is not later than Y's. An insert into an existing side succeeds
  and leaves there exactly the former entries and the new one; the entries that
  have the same price and the same timestamp keep their order, the new entry
  last. A remove leaves the entries with another id, in their order.
\<close>

theorem book_order_preserved:
  assumes "book_ordered books"
  shows "(add_order books ord now = Inr (r, books') \<longrightarrow>
            book_ordered books'
            \<and> (\<forall>es. book_side books (o_energy_type ord) (o_order_type ord) = Some es \<longrightarrow>
                 r \<and> (\<exists>es'. book_side books' (o_energy_type ord) (o_order_type ord) = Some es'
                        \<and> mset es' = mset (es @ [entry_of ord now])
                        \<and> (\<forall>p t. filter (\<lambda>x. e_price x = p \<and> e_timestamp x = t) es'
                                = filter (\<lambda>x. e_price x = p \<and> e_timestamp x = t)
                                    (es @ [entry_of ord now])))))
       \<and> (remove_order books energy_type order_type order_id = Inr (r, books') \<longrightarrow>
            book_ordered books'
            \<and> (\<forall>es. book_side books energy_type order_type = Some es \<longrightarrow>
                 book_side books' energy_type order_type
                   = Some (filter (\<lambda>entry. e_id entry \<noteq> order_id) es)))"
proof -
  have a1: "book_ordered books'" if "add_order books ord now = Inr (r, books')"
    using assms that by (rule add_order_ordered)
  have a2: "r \<and> (\<exists>es'. book_side books' (o_energy_type ord) (o_order_type ord) = Some es'
                    \<and> mset es' = mset (es @ [entry_of ord now])
                    \<and> (\<forall>p t. filter (\<lambda>x. e_price x = p \<and> e_timestamp x = t) es'
                            = filter (\<lambda>x. e_price x = p \<and> e_timestamp x = t)
                                (es @ [entry_of ord now])))"
    if "add_order books ord now = Inr (r, books')"
      and "book_side books (o_energy_type ord) (o_order_type ord) = Some es" for es
    using that(2) that(1) by (rule add_order_side)
  have r1: "book_ordered books'"
    if "remove_order books energy_type order_type order_id = Inr (r, books')"
    using assms that by (rule remove_order_ordered)
  have r2: "book_side books' energy_type order_type
              = Some (filter (\<lambda>entry. e_id entry \<noteq> order_id) es)"
    if "remove_order books energy_type order_type order_id = Inr (r, books')"
      and "book_side books energy_type order_type = Some es" for es
    using that(2) that(1) by (rule remove_order_side)
  show ?thesis
  proof (rule conjI)
    show "add_order books ord now = Inr (r, books') \<longrightarrow>
            book_ordered books'
            \<and> (\<forall>es. book_side books (o_energy_type ord) (o_order_type ord) = Some es \<longrightarrow>
                 r \<and> (\<exists>es'. book_side books' (o_energy_type ord) (o_order_type ord) = Some es'
                        \<and> mset es' = mset (es @ [entry_of ord now])
                        \<and> (\<forall>p t. filter (\<lambda>x. e_price x = p \<and> e_timestamp x = t) es'
                                = filter (\<lambda>x. e_price x = p \<and> e_timestamp x = t)
                                    (es @ [entry_of ord now]))))"
      using a1 a2 by blast
    show "remove_order books energy_type order_type order_id = Inr (r, books') \<longrightarrow>
            book_ordered books'
            \<and> (\<forall>es. book_side books energy_type order_type = Some es \<longrightarrow>
                 book_side books' energy_type order_type
                   = Some (filter (\<lambda>entry. e_id entry \<noteq> order_id) es))"
      using r1 r2 by blast
  qed
qed

lemma OrderBook_init_hydro: "OrderBook_init ''hydro'' = Some empty_sides"
  by (simp add: OrderBook_init_def)

lemma empty_sides_buy: "empty_sides ''buy'' = Some []"
  by (simp add: empty_sides_def)

lemma two_bids_book_ordered: "book_ordered two_bids_book"
  by (auto simp: book_ordered_def book_side_def two_bids_book_def OrderBook_init_def
        empty_sides_def not_after_def better_price_def entry_of_def order_3_def order_5_def
        split: if_splits)

theorem book_order_preserved_witness:
  "same_tick_book = Inr (True, two_bids_book)
   \<and> book_ordered two_bids_book
   \<and> add_order two_bids_book order_6 6 = Inr (True, three_bids_book)
   \<and> book_side three_bids_book ''hydro'' ''buy''
       = Some [entry_of order_6 6, entry_of order_3 5, entry_of order_5 5]
   \<and> book_ordered three_bids_book
   \<and> remove_order three_bids_book ''hydro'' ''buy'' ''order-3'' = Inr (True, bids_after_remove)
   \<and> book_side bids_after_remove ''hydro'' ''buy'' = Some [entry_of order_6 6, entry_of order_5 5]
   \<and> book_ordered bids_after_remove"
proof -
  have two: "same_tick_book = Inr (True, two_bids_book)"
    by (simp add: same_tick_book_def add_then_def add_order_def sort_book_def two_bids_book_def
          OrderBook_init_hydro empty_sides_buy order_3_def order_5_def entry_of_def Let_def)
  have add: "add_order two_bids_book order_6 6 = Inr (True, three_bids_book)"
    by (simp add: add_order_def sort_book_def two_bids_book_def three_bids_book_def
          order_3_def order_5_def order_6_def entry_of_def Let_def)
  have rem: "remove_order three_bids_book ''hydro'' ''buy'' ''order-3''
               = Inr (True, bids_after_remove)"
    by (simp add: remove_order_def three_bids_book_def bids_after_remove_def
          order_3_def order_5_def order_6_def entry_of_def Let_def)
  have side3: "book_side three_bids_book ''hydro'' ''buy''
                 = Some [entry_of order_6 6, entry_of order_3 5, entry_of order_5 5]"
    by (simp add: three_bids_book_def book_side_def)
  have side4: "book_side bids_after_remove ''hydro'' ''buy''
                 = Some [entry_of order_6 6, entry_of order_5 5]"
    by (simp add: bids_after_remove_def book_side_def)
  from book_order_preserved [OF two_bids_book_ordered, of order_6 6 True three_bids_book] add
  have inv3: "book_ordered three_bids_book" by blast
  from book_order_preserved [OF inv3, where r = True and books' = bids_after_remove
         and energy_type = "''hydro''" and order_type = "''buy''" and order_id = "''order-3''"] rem
  have inv4: "book_ordered bids_after_remove" by blast
  from two two_bids_book_ordered add side3 inv3 rem side4 inv4 show ?thesis by blast
qed

section \<open>Verification\<close>




lemma integrity_own_hash: "verify_hash_integrity sha contract_id (sha contract_id)"
  by (simp add: verify_hash_integrity_def take_is_prefix)

lemma verify_own_hash:
  assumes "verification_cache s (cache_key contract_id (sha contract_id)) \<noteq> Some False"
    and "verify sha s contract_id (sha contract_id) now verification_time = (answer, s')"
  shows "answer \<and> (\<forall>k. verification_cache s' k = Some False
                        \<longrightarrow> verification_cache s k = Some False)"
  using assms
  by (auto simp: verify_def Let_def integrity_own_hash split: option.splits if_splits)

lemma batch_verify_loop_ids:
  "map br_contract_id (fst (batch_verify_loop sha clock k s contract_ids results))
     = map br_contract_id results @ contract_ids"
proof (induction contract_ids arbitrary: k s results)
  case Nil
  then show ?case by simp
next
  case (Cons a contract_ids)
  then show ?case by (simp add: Let_def split: prod.splits)
qed

lemma batch_verify_loop_verified:
  assumes "\<forall>contract_id \<in> set contract_ids.
             verification_cache s (cache_key contract_id (sha contract_id)) \<noteq> Some False"
    and "\<forall>r \<in> set results. br_verified r"
  shows "\<forall>r \<in> set (fst (batch_verify_loop sha clock k s contract_ids results)). br_verified r"
  using assms
proof (induction contract_ids arbitrary: k s results)
  case Nil
  then show ?case by simp
next
  case (Cons a contract_ids)
  obtain answer s' where v: "verify sha s a (sha a) (fst (clock k)) (snd (clock k)) = (answer, s')"
    by (cases "verify sha s a (sha a) (fst (clock k)) (snd (clock k))")
  from Cons.prems(1) have "verification_cache s (cache_key a (sha a)) \<noteq> Some False" by simp
  from verify_own_hash [OF this v]
  have ans: answer
    and keep: "\<And>k. verification_cache s' k = Some False \<Longrightarrow> verification_cache s k = Some False"
    by auto
  have inv': "\<forall>contract_id \<in> set contract_ids.
                verification_cache s' (cache_key contract_id (sha contract_id)) \<noteq> Some False"
    using Cons.prems(1) keep by auto
  have res': "\<forall>r \<in> set (results @ [\<lparr>br_contract_id = a, br_verified = answer\<rparr>]). br_verified r"
    using Cons.prems(2) ans by simp
  from Cons.IH [OF inv' res', of "Suc k"] v show ?case by (simp add: Let_def)
qed

text \<open>
  C10, as stated, fails: the cache key is the id, a colon and the hash run
  together, so the pair (\<^verbatim>\<open>a\<close>, \<^verbatim>\<open>b:\<close> + digest of \<^verbatim>\<open>a:b\<close>) and the pair
  (\<^verbatim>\<open>a:b\<close>, digest of \<^verbatim>\<open>a:b\<close>) share one key. After a failed verification
  of the first pair, the batch verification of contract \<^verbatim>\<open>a:b\<close> is answered
  from the cache and reports false.
\<close>

theorem batch_verify_reports_cached_failure:
  "fst (verify sha_table VerificationService_init ''a'' (''b:'' @ sha_table ''a:b'') 1 (1 / 10))
     = False
   \<and> fst (batch_verify sha_table steady_clock poisoned_service [''a:b''])
       = [\<lparr>br_contract_id = ''a:b'', br_verified = False\<rparr>]"
  by (simp add: batch_verify_def poisoned_service_def verify_def VerificationService_init_def
        cache_key_def verify_hash_integrity_def sha_table_def Let_def)

text \<open>
  C10, amended: \<open>batch_verify\<close> returns exactly one result per id, in input order;
  every result reports verified when the cache holds no negative answer under the
  key of a listed id with its digest, as on a fresh service. The hash check itself
  always succeeds on the digest of the id (\<open>integrity_own_hash\<close>).
\<close>

theorem batch_verify_results:
  "map br_contract_id (fst (batch_verify sha clock s contract_ids)) = contract_ids
   \<and> ((\<forall>contract_id \<in> set contract_ids.
          verification_cache s (cache_key contract_id (sha contract_id)) \<noteq> Some False)
        \<longrightarrow> (\<forall>r \<in> set (fst (batch_verify sha clock s contract_ids)). br_verified r))"
  using batch_verify_loop_ids [of sha clock 0 s contract_ids "[]"]
        batch_verify_loop_verified [of contract_ids s sha "[]" clock 0]
  by (simp add: batch_verify_def)

theorem batch_verify_results_witness:
  "fst (batch_verify sha_table steady_clock VerificationService_init [''a'', ''a:b''])
     = [\<lparr>br_contract_id = ''a'', br_verified = True\<rparr>,
        \<lparr>br_contract_id = ''a:b'', br_verified = True\<rparr>]"
proof -
  have "\<forall>contract_id \<in> set [''a'', ''a:b''].
          verification_cache VerificationService_init
            (cache_key contract_id (sha_table contract_id)) \<noteq> Some False"
    by (simp add: VerificationService_init_def)
  with batch_verify_results [of sha_table steady_clock VerificationService_init "[''a'', ''a:b'']"]
  have "map br_contract_id
          (fst (batch_verify sha_table steady_clock VerificationService_init [''a'', ''a:b'']))
          = [''a'', ''a:b'']"
    and "\<forall>r \<in> set (fst (batch_verify sha_table steady_clock VerificationService_init
                             [''a'', ''a:b''])). br_verified r"
    by blast+
  then show ?thesis
    by (auto simp: map_eq_Cons_conv)
qed

section \<open>Contract hash\<close>

lemma init_hash:
  "generate_hash L (SmartContract_init L b s e q p cid st cr nid now)
     = c_transaction_hash (SmartContract_init L b s e q p cid st cr nid now)"
  by (simp add: SmartContract_init_def Let_def generate_hash_def)

lemma parse_optional_round_trip:
  assumes "\<forall>d. fromisoformat L (isoformat L d) = Some d"
  shows "\<exists>r. parse_optional_date L (map_option (isoformat L) v) None = Inr r"
  using assms by (cases v) (auto simp: parse_optional_date_def)

lemma from_dict_to_dict:
  assumes iso: "\<forall>d. fromisoformat L (isoformat L d) = Some d"
  shows "\<exists>c'. from_dict L (to_dict L c) new_id now = Inr c'
            \<and> c_transaction_hash c' = c_transaction_hash c
            \<and> generate_hash L c' = generate_hash L c"
proof -
  from parse_optional_round_trip [OF iso] obtain dep exe where
    dep: "parse_optional_date L (map_option (isoformat L) (c_deployed_at c)) None = Inr dep"
    and exe: "parse_optional_date L (map_option (isoformat L) (c_executed_at c)) None = Inr exe"
    by blast
  show ?thesis
    using iso dep exe
    by (simp add: from_dict_def to_dict_def SmartContract_init_def Let_def generate_hash_def)
qed

lemma from_dict_hash:
  assumes iso: "\<forall>d. fromisoformat L (isoformat L d) = Some d"
    and rt: "from_dict L (to_dict L c) new_id now = Inr c'"
  shows "c_transaction_hash c' = c_transaction_hash c \<and> generate_hash L c' = generate_hash L c"
  using from_dict_to_dict [OF iso, of c new_id now] rt by auto

lemma lifecycle_hash:
  assumes iso: "\<forall>d. fromisoformat L (isoformat L d) = Some d"
    and "lifecycle L c"
  shows "generate_hash L c = c_transaction_hash c"
  using assms(2)
proof (induction rule: lifecycle.induct)
  case (constructed buyer_id seller_id energy_type quantity price contract_id status created_at
          new_id now)
  show ?case by (rule init_hash)
next
  case (deployed c now)
  then show ?case by (simp add: contract_deploy_def generate_hash_def)
next
  case (executed c execution_time now gas_draw)
  then show ?case by (simp add: contract_execute_def generate_hash_def)
next
  case (verified c)
  then show ?case by (simp add: contract_verify_def generate_hash_def)
next
  case (failed c reason)
  then show ?case by (simp add: contract_fail_def generate_hash_def)
next
  case (round_trip c new_id now c')
  with from_dict_hash [OF iso round_trip.hyps(2)] show ?case by simp
qed

text \<open>
  C9: for every contract that construction, the lifecycle methods and round trips
  through \<open>to_dict\<close> and \<open>from_dict\<close> produce, the digest recomputed from buyer,
  seller, category, quantity, price and creation time is the stored hash. No
  lifecycle method changes the stored hash, and the round trip returns a contract
  with the same stored hash, which again equals the recomputed digest. The
  library is assumed to parse back the date that \<^verbatim>\<open>isoformat\<close> prints.
\<close>

theorem hash_stable:
  assumes iso: "\<forall>d. fromisoformat L (isoformat L d) = Some d"
    and reach: "lifecycle L c"
  shows "generate_hash L c = c_transaction_hash c
       \<and> c_transaction_hash (snd (contract_deploy t c)) = c_transaction_hash c
       \<and> c_transaction_hash (snd (contract_execute execution_time t gas_draw c))
           = c_transaction_hash c
       \<and> c_transaction_hash (snd (contract_fail reason c)) = c_transaction_hash c
       \<and> c_transaction_hash (snd (contract_verify c)) = c_transaction_hash c
       \<and> (\<exists>c'. from_dict L (to_dict L c) new_id now = Inr c'
                \<and> c_transaction_hash c' = c_transaction_hash c
                \<and> generate_hash L c' = c_transaction_hash c')"
  using lifecycle_hash [OF iso reach] from_dict_to_dict [OF iso, of c new_id now]
  by (auto simp: contract_deploy_def contract_execute_def contract_fail_def
        contract_verify_def)

theorem hash_stable_witness:
  "(\<forall>d. fromisoformat test_lib (isoformat test_lib d) = Some d)
   \<and> lifecycle test_lib solar_contract_executed
   \<and> c_status solar_contract_executed = ''completed''
   \<and> generate_hash test_lib solar_contract_executed = c_transaction_hash solar_contract
   \<and> (\<exists>c'. from_dict test_lib (to_dict test_lib solar_contract_executed) ''c-2'' 12 = Inr c'
           \<and> c_transaction_hash c' = c_transaction_hash solar_contract)"
proof -
  have iso: "\<forall>d. fromisoformat test_lib (isoformat test_lib d) = Some d"
    by (simp add: test_lib_def)
  have reach: "lifecycle test_lib solar_contract_executed"
    unfolding solar_contract_executed_def solar_contract_def
    by (intro lifecycle.executed lifecycle.deployed lifecycle.constructed)
  have same: "c_transaction_hash solar_contract_executed = c_transaction_hash solar_contract"
    and fin: "c_status solar_contract_executed = ''completed''"
    by (simp_all add: solar_contract_executed_def contract_execute_def contract_deploy_def)
  from hash_stable [OF iso reach, where t = 0 and execution_time = 0 and gas_draw = 0
         and reason = "''x''" and new_id = "''c-2''" and now = 12]
  have "generate_hash test_lib solar_contract_executed = c_transaction_hash solar_contract_executed"
    and "\<exists>c'. from_dict test_lib (to_dict test_lib solar_contract_executed) ''c-2'' 12 = Inr c'
              \<and> c_transaction_hash c' = c_transaction_hash solar_contract_executed"
    by blast+
  with iso reach same fin show ?thesis
    by simp
qed

section \<open>Matching\<close>

text \<open>
  The matching pass reads the pending orders of a transaction service that it
  has just constructed, which holds none: whatever the registry of the module
  contains, no order is ever matched.
\<close>

lemma match_order_never_matches:
  "match_order L m new_order env = (Inr False, new_order, m)"
  by (simp add: match_order_def TransactionService_init_def get_pending_orders_def)

lemma create_trade_never_matches:
  "rs_matched (fst (create_trade L eng data new_id now now' env)) \<noteq> Some True"
  by (simp add: create_trade_def match_order_never_matches create_transaction_def Let_def)

text \<open>
  C1: the claim is what the matcher is written to do, and the code fails it. On a
  fresh engine the sell and then the buy of scenario S1 are both accepted with
  \<^verbatim>\<open>matched\<close> false; both orders stay pending and resting, and no match or
  contract is recorded.
\<close>

theorem immediate_cross_does_not_match:
  "rs_status_code (fst after_sell) = 201 \<and> rs_matched (fst after_sell) = Some False
   \<and> rs_status_code (fst after_buy) = 201 \<and> rs_matched (fst after_buy) = Some False
   \<and> map t_id (transactions (eng_transaction_service (snd after_buy))) = [''t-sell'', ''t-buy'']
   \<and> map t_status (transactions (eng_transaction_service (snd after_buy)))
        = [''pending'', ''pending'']
   \<and> map t_id (get_pending_orders (eng_transaction_service (snd after_buy)) (Some ''solar''))
        = [''t-sell'', ''t-buy'']
   \<and> matched_orders (eng_order_matcher (snd after_buy)) = []
   \<and> total_matches (eng_order_matcher (snd after_buy)) = 0"
  by (simp add: after_buy_def after_sell_def create_trade_def match_order_never_matches
        create_transaction_def Transaction_init_def sell_request_def buy_request_def
        engine_init_def TransactionService_init_def OrderMatcher_init_def
        get_pending_orders_def Let_def)

text \<open>
  C2: the claim is what the selection is documented to do, and the code fails it.
  In scenario S4 the selection sorts the two compatible sells by price and time,
  uA's first, and then returns the whole list instead of its head: the value
  designated as counterparty is both orders, and executing the match with it
  raises \<^verbatim>\<open>AttributeError\<close>.
\<close>

theorem best_match_is_the_whole_list:
  "find_best_match buy_c [sell_a, sell_b] = Some [sell_a, sell_b]
   \<and> find_best_match buy_c [sell_b, sell_a] = Some [sell_a, sell_b]
   \<and> mr_raised (execute_match test_lib OrderMatcher_init buy_c (Many [sell_a, sell_b]) env0)
       = Some AttributeError"
  by (simp add: find_best_match_def buy_c_def sell_a_def sell_b_def Transaction_init_def
        execute_match_def)

text \<open>
  C3: an incoming order never matches a resting order of the opposite side and the
  same category whose price is compatible and whose quantity differs. The
  submission is accepted with \<^verbatim>\<open>matched\<close> false, the matching pass returns
  before the execution of a match, the only place where a contract is deployed, so
  the matcher records nothing, and both orders are pending and resting afterwards.
  (The matching pass finds no candidate at all, so the quantities are never
  looked at.)
\<close>

theorem unequal_quantities_do_not_match:
  assumes resting: "resting \<in> set (transactions (eng_transaction_service eng))"
    and pending: "t_status resting = ''pending''"
    and category: "t_energy_type resting = rq_energy_type data"
    and known: "rq_energy_type data \<in> set [''solar'', ''wind'', ''hydro'', ''biomass'']"
    and sides: "(rq_order_type data = ''buy'' \<and> t_order_type resting = ''sell'')
                \<or> (rq_order_type data = ''sell'' \<and> t_order_type resting = ''buy'')"
    and positive: "0 < rq_quantity data" "0 < rq_price data"
    and incoming: "incoming = Transaction_init (rq_energy_type data) (rq_quantity data)
                     (rq_price data) (rq_order_type data) (rq_user_id data) new_id now now'"
    and compatible: "price_compatible incoming resting"
    and differ: "t_quantity resting \<noteq> t_quantity incoming"
  shows "fst (create_trade L eng data new_id now now' env)
           = \<lparr>rs_status_code = 201, rs_transaction = Some incoming, rs_matched = Some False\<rparr>
       \<and> match_order L (eng_order_matcher eng) incoming env
           = (Inr False, incoming, eng_order_matcher eng)
       \<and> eng_order_matcher (snd (create_trade L eng data new_id now now' env))
           = eng_order_matcher eng
       \<and> transactions (eng_transaction_service (snd (create_trade L eng data new_id now now' env)))
           = transactions (eng_transaction_service eng) @ [incoming]
       \<and> t_status incoming = ''pending'' \<and> t_contract_id incoming = None
       \<and> resting \<in> set (get_pending_orders
             (eng_transaction_service (snd (create_trade L eng data new_id now now' env)))
             (Some (rq_energy_type data)))
       \<and> incoming \<in> set (get_pending_orders
             (eng_transaction_service (snd (create_trade L eng data new_id now now' env)))
             (Some (rq_energy_type data)))"
proof -
  from sides have side: "rq_order_type data \<in> set [''buy'', ''sell'']" by auto
  from known have ne: "rq_energy_type data \<noteq> []" by auto
  have run: "create_trade L eng data new_id now now' env
      = (\<lparr>rs_status_code = 201, rs_transaction = Some incoming, rs_matched = Some False\<rparr>,
         \<lparr>eng_transaction_service = (eng_transaction_service eng)
            \<lparr>transactions := transactions (eng_transaction_service eng) @ [incoming]\<rparr>,
          eng_order_matcher = eng_order_matcher eng\<rparr>)"
    using known side positive
    by (simp add: create_trade_def create_transaction_def match_order_never_matches incoming
          Let_def)
  have st: "t_status incoming = ''pending''" "t_contract_id incoming = None"
    "t_energy_type incoming = rq_energy_type data"
    by (simp_all add: incoming Transaction_init_def)
  show ?thesis
    using resting pending category ne st
    by (simp add: run match_order_never_matches get_pending_orders_def)
qed

theorem unequal_quantities_do_not_match_witness:
  "sell_hydro \<in> set (transactions (eng_transaction_service (snd after_hydro_sell)))
   \<and> t_status sell_hydro = ''pending''
   \<and> price_compatible buy_hydro sell_hydro
   \<and> t_quantity sell_hydro \<noteq> t_quantity buy_hydro
   \<and> fst (create_trade test_lib (snd after_hydro_sell) hydro_buy_request ''t-b'' 2 2 env0)
       = \<lparr>rs_status_code = 201, rs_transaction = Some buy_hydro, rs_matched = Some False\<rparr>
   \<and> transactions (eng_transaction_service
         (snd (create_trade test_lib (snd after_hydro_sell) hydro_buy_request ''t-b'' 2 2 env0)))
       = [sell_hydro, buy_hydro]
   \<and> get_pending_orders (eng_transaction_service
         (snd (create_trade test_lib (snd after_hydro_sell) hydro_buy_request ''t-b'' 2 2 env0)))
         (Some ''hydro'')
       = [sell_hydro, buy_hydro]"
proof -
  have reg: "transactions (eng_transaction_service (snd after_hydro_sell)) = [sell_hydro]"
    by (simp add: after_hydro_sell_def create_trade_def match_order_never_matches
          create_transaction_def hydro_sell_request_def engine_init_def
          TransactionService_init_def sell_hydro_def Let_def)
  have resting: "sell_hydro \<in> set (transactions (eng_transaction_service (snd after_hydro_sell)))"
    by (simp add: reg)
  have pending: "t_status sell_hydro = ''pending''"
    and category: "t_energy_type sell_hydro = rq_energy_type hydro_buy_request"
    and known: "rq_energy_type hydro_buy_request \<in> set [''solar'', ''wind'', ''hydro'', ''biomass'']"
    and sides: "(rq_order_type hydro_buy_request = ''buy'' \<and> t_order_type sell_hydro = ''sell'')
                \<or> (rq_order_type hydro_buy_request = ''sell'' \<and> t_order_type sell_hydro = ''buy'')"
    and positive: "0 < rq_quantity hydro_buy_request" "0 < rq_price hydro_buy_request"
    and incoming: "buy_hydro = Transaction_init (rq_energy_type hydro_buy_request)
                     (rq_quantity hydro_buy_request) (rq_price hydro_buy_request)
                     (rq_order_type hydro_buy_request) (rq_user_id hydro_buy_request) ''t-b'' 2 2"
    and compatible: "price_compatible buy_hydro sell_hydro"
    and differ: "t_quantity sell_hydro \<noteq> t_quantity buy_hydro"
    by (simp_all add: sell_hydro_def buy_hydro_def hydro_buy_request_def Transaction_init_def
          price_compatible_def)
  from unequal_quantities_do_not_match [OF resting pending category known sides positive
         incoming compatible differ, of test_lib env0]
  have "fst (create_trade test_lib (snd after_hydro_sell) hydro_buy_request ''t-b'' 2 2 env0)
          = \<lparr>rs_status_code = 201, rs_transaction = Some buy_hydro, rs_matched = Some False\<rparr>"
    and "transactions (eng_transaction_service
           (snd (create_trade test_lib (snd after_hydro_sell) hydro_buy_request ''t-b'' 2 2 env0)))
          = [sell_hydro, buy_hydro]"
    by (simp_all add: reg)
  then show ?thesis
    using resting pending compatible differ
    by (simp add: get_pending_orders_def sell_hydro_def buy_hydro_def Transaction_init_def)
qed

end
